theory Spec2Isabelle
  imports Complex_Main
begin

section \<open>JavaScript numbers\<close>

text \<open>
  The engine computes with JavaScript numbers. They are modelled as exact rationals
  together with the three special values of IEEE 754 that the code can produce by
  dividing by zero: \<open>Infinity\<close>, \<open>-Infinity\<close> and \<open>NaN\<close>. Rounding, overflow and the
  sign of zero are not modelled: a finite result is the exact one, and the only zero
  is the positive one, so \<open>x / 0\<close> has the sign of \<open>x\<close>. The divisors of the code are
  the portfolio value and the peak; the program computes a negative zero for one of
  them only from a cash or a peak that already is \<open>-0\<close>, a state this type does not
  describe.
\<close>

datatype jsnum = Fin rat | PInf | NInf | NaN

fun js_neg :: "jsnum \<Rightarrow> jsnum" where
  "js_neg (Fin a) = Fin (- a)"
| "js_neg PInf = NInf"
| "js_neg NInf = PInf"
| "js_neg NaN = NaN"

fun js_add :: "jsnum \<Rightarrow> jsnum \<Rightarrow> jsnum" where
  "js_add (Fin a) (Fin b) = Fin (a + b)"
| "js_add NaN y = NaN"
| "js_add x NaN = NaN"
| "js_add PInf NInf = NaN"
| "js_add NInf PInf = NaN"
| "js_add PInf y = PInf"
| "js_add NInf y = NInf"
| "js_add (Fin a) PInf = PInf"
| "js_add (Fin a) NInf = NInf"

definition js_sub :: "jsnum \<Rightarrow> jsnum \<Rightarrow> jsnum" where
  "js_sub x y = js_add x (js_neg y)"

fun js_mul :: "jsnum \<Rightarrow> jsnum \<Rightarrow> jsnum" where
  "js_mul (Fin a) (Fin b) = Fin (a * b)"
| "js_mul NaN y = NaN"
| "js_mul x NaN = NaN"
| "js_mul (Fin a) PInf = (if a = 0 then NaN else if 0 < a then PInf else NInf)"
| "js_mul (Fin a) NInf = (if a = 0 then NaN else if 0 < a then NInf else PInf)"
| "js_mul PInf (Fin b) = (if b = 0 then NaN else if 0 < b then PInf else NInf)"
| "js_mul NInf (Fin b) = (if b = 0 then NaN else if 0 < b then NInf else PInf)"
| "js_mul PInf PInf = PInf"
| "js_mul PInf NInf = NInf"
| "js_mul NInf PInf = NInf"
| "js_mul NInf NInf = PInf"

fun js_div :: "jsnum \<Rightarrow> jsnum \<Rightarrow> jsnum" where
  "js_div (Fin a) (Fin b) =
     (if b = 0 then (if a = 0 then NaN else if 0 < a then PInf else NInf)
      else Fin (a / b))"
| "js_div NaN y = NaN"
| "js_div x NaN = NaN"
| "js_div (Fin a) PInf = Fin 0"
| "js_div (Fin a) NInf = Fin 0"
| "js_div PInf (Fin b) = (if 0 \<le> b then PInf else NInf)"
| "js_div NInf (Fin b) = (if 0 \<le> b then NInf else PInf)"
| "js_div PInf PInf = NaN"
| "js_div PInf NInf = NaN"
| "js_div NInf PInf = NaN"
| "js_div NInf NInf = NaN"

text \<open>The comparisons \<open><\<close>, \<open>>\<close>, \<open><=\<close>, \<open>>=\<close>: each is false when an operand is \<open>NaN\<close>.\<close>

fun js_lt :: "jsnum \<Rightarrow> jsnum \<Rightarrow> bool" where
  "js_lt (Fin a) (Fin b) = (a < b)"
| "js_lt (Fin a) PInf = True"
| "js_lt NInf (Fin b) = True"
| "js_lt NInf PInf = True"
| "js_lt x y = False"

fun js_le :: "jsnum \<Rightarrow> jsnum \<Rightarrow> bool" where
  "js_le (Fin a) (Fin b) = (a \<le> b)"
| "js_le (Fin a) PInf = True"
| "js_le NInf (Fin b) = True"
| "js_le NInf PInf = True"
| "js_le NInf NInf = True"
| "js_le PInf PInf = True"
| "js_le x y = False"

definition js_gt :: "jsnum \<Rightarrow> jsnum \<Rightarrow> bool" where
  "js_gt x y = js_lt y x"

definition js_ge :: "jsnum \<Rightarrow> jsnum \<Rightarrow> bool" where
  "js_ge x y = js_le y x"

text \<open>
  \<open>v || 0\<close> on a property read: \<open>undefined\<close> (the key is absent), \<open>0\<close> and \<open>NaN\<close> are
  falsy and give \<open>0\<close>; every other number is returned as it is.
\<close>

fun js_or0 :: "jsnum option \<Rightarrow> jsnum" where
  "js_or0 None = Fin 0"
| "js_or0 (Some (Fin a)) = Fin a"
| "js_or0 (Some NaN) = Fin 0"
| "js_or0 (Some x) = x"

section \<open>The data of the trading engine\<close>

text \<open>A trade as \<open>recordTrade\<close> builds it; \<open>timestamp\<close> is the reading of \<open>new Date()\<close>.\<close>

record trade =
  action :: string
  symbol :: string
  quantity :: jsnum
  price :: jsnum
  timestamp :: int

text \<open>
  \<open>positions\<close> is a JavaScript object used as a dictionary. \<open>Object.entries\<close> lists
  its keys in insertion order (for keys that are not array indices, as ticker symbols
  are), so it is an association list with distinct keys, a new key going to the end.
\<close>

record portfolio =
  cash :: jsnum
  positions :: "(string \<times> jsnum) list"
  history :: "trade list"

record limits =
  maxRiskPerTrade :: jsnum
  maxPortfolioDrawdown :: jsnum
  maxPositionSize :: jsnum

record riskManager =
  limits :: limits
  initialCapital :: jsnum
  peakPortfolioValue :: jsnum

text \<open>
  The engine and its risk manager refer to each other, so one record holds both.
  \<open>priceReads\<close> counts the calls of \<open>getPrice\<close> made so far: the price oracle may
  answer each call differently, and is a function of the number of the call and of
  the symbol.
\<close>

record tradingEngine =
  portfolio :: portfolio
  mode :: string
  memory :: "trade list"
  riskManager :: riskManager
  priceReads :: nat

type_synonym priceOracle = "nat \<Rightarrow> string \<Rightarrow> jsnum"

text \<open>
  \<open>TradingEngine.getPrice\<close> is \<open>150 + Math.random() * 10\<close>; \<open>rnd n\<close> is what
  \<open>Math.random()\<close> returns in the \<open>n\<close>-th call, a number in \<open>[0, 1)\<close>.
\<close>

definition getPrice :: "(nat \<Rightarrow> rat) \<Rightarrow> priceOracle" where
  "getPrice rnd n smb = js_add (Fin 150) (js_mul (Fin (rnd n)) (Fin 10))"

subsection \<open>Results\<close>

text \<open>
  The reasons are template strings; a reason is represented by its template and the
  numbers interpolated into it (the percentage and the limit, both times 100), not by
  the rendered text:
  \<^item> \<open>SellOrdersAllowed\<close>: \<^verbatim>\<open>Sell orders allowed\<close>
  \<^item> \<open>DrawdownExceeds d l\<close>: \<^verbatim>\<open>Portfolio drawdown (d%) exceeds limit (l%)\<close>
  \<^item> \<open>PositionSizeExceeds s l\<close>: \<^verbatim>\<open>Position size (s%) exceeds limit (l%)\<close>
  \<^item> \<open>RiskPerTradeExceeds r l\<close>: \<^verbatim>\<open>Risk per trade (r%) exceeds limit (l%)\<close>
  \<^item> \<open>PassesAllRiskChecks\<close>: \<^verbatim>\<open>Trade passes all risk checks\<close>
  \<^item> \<open>InsufficientFunds\<close>: \<^verbatim>\<open>Insufficient funds\<close>
\<close>

datatype reason =
    SellOrdersAllowed
  | DrawdownExceeds jsnum jsnum
  | PositionSizeExceeds jsnum jsnum
  | RiskPerTradeExceeds jsnum jsnum
  | PassesAllRiskChecks
  | InsufficientFunds

text \<open>The metrics of an allowed trade: the three ratios times 100, before \<open>toFixed(2)\<close>.\<close>

record metrics =
  riskPerTrade :: jsnum
  positionSize :: jsnum
  drawdown :: jsnum

record check =
  allowed :: bool

record drawdownCheck = check +
  currentDrawdown :: jsnum
  peakValue :: jsnum
  currentValue :: jsnum

record positionCheck = check +
  currentSize :: jsnum
  positionValue :: jsnum
  portfolioValue :: jsnum

record tradeCheck = check +
  reason :: reason
  metrics :: "metrics option"

text \<open>
  \<open>buy\<close> returns \<open>{success: true, price, quantity, riskMetrics}\<close> or
  \<open>{success: false, reason}\<close>.
\<close>

datatype buyResult =
    Bought jsnum jsnum "metrics option"
  | Refused reason

fun success :: "buyResult \<Rightarrow> bool" where
  "success (Bought p q m) = True"
| "success (Refused r) = False"

section \<open>RiskManager\<close>

definition newLimits :: limits where
  "newLimits = \<lparr>maxRiskPerTrade = Fin (1 / 100),
                maxPortfolioDrawdown = Fin (10 / 100),
                maxPositionSize = Fin (20 / 100)\<rparr>"

definition newRiskManager :: "portfolio \<Rightarrow> riskManager" where
  "newRiskManager pf =
     \<lparr>limits = newLimits, initialCapital = cash pf, peakPortfolioValue = cash pf\<rparr>"

text \<open>
  The loop of \<open>getPortfolioValue\<close> over \<open>Object.entries(positions)\<close>: one price read
  for each position, in order, added to the running total.
\<close>

fun sumPositions :: "priceOracle \<Rightarrow> nat \<Rightarrow> (string \<times> jsnum) list \<Rightarrow> jsnum \<Rightarrow> jsnum \<times> nat" where
  "sumPositions gp n [] totalValue = (totalValue, n)"
| "sumPositions gp n ((smb, qty) # rest) totalValue =
     sumPositions gp (Suc n) rest (js_add totalValue (js_mul (gp n smb) qty))"

definition getPortfolioValue :: "priceOracle \<Rightarrow> tradingEngine \<Rightarrow> jsnum \<times> tradingEngine" where
  "getPortfolioValue gp e =
     (let (totalValue, n) =
            sumPositions gp (priceReads e) (positions (portfolio e)) (cash (portfolio e));
          rm = riskManager e;
          rm' = (if js_gt totalValue (peakPortfolioValue rm)
                 then rm\<lparr>peakPortfolioValue := totalValue\<rparr> else rm)
      in (totalValue, e\<lparr>riskManager := rm', priceReads := n\<rparr>))"

definition checkDrawdown :: "priceOracle \<Rightarrow> tradingEngine \<Rightarrow> drawdownCheck \<times> tradingEngine" where
  "checkDrawdown gp e =
     (let (cur, e1) = getPortfolioValue gp e;
          pk = peakPortfolioValue (riskManager e1);
          dd = js_div (js_sub pk cur) pk
      in (\<lparr>allowed = js_le dd (maxPortfolioDrawdown (limits (riskManager e1))),
           currentDrawdown = dd, peakValue = pk, currentValue = cur\<rparr>, e1))"

definition checkPositionSize ::
  "priceOracle \<Rightarrow> string \<Rightarrow> jsnum \<Rightarrow> jsnum \<Rightarrow> tradingEngine \<Rightarrow> positionCheck \<times> tradingEngine" where
  "checkPositionSize gp smb additionalQuantity p e =
     (let (pv, e1) = getPortfolioValue gp e;
          currentQuantity = js_or0 (map_of (positions (portfolio e1)) smb);
          newQuantity = js_add currentQuantity additionalQuantity;
          pval = js_mul newQuantity p;
          psize = js_div pval pv
      in (\<lparr>allowed = js_le psize (maxPositionSize (limits (riskManager e1))),
           currentSize = psize, positionValue = pval, portfolioValue = pv\<rparr>, e1))"

definition checkTrade ::
  "priceOracle \<Rightarrow> string \<Rightarrow> string \<Rightarrow> jsnum \<Rightarrow> jsnum \<Rightarrow> tradingEngine \<Rightarrow> tradeCheck \<times> tradingEngine" where
  "checkTrade gp act smb qty p e =
     (if act \<noteq> ''buy''
      then (\<lparr>allowed = True, reason = SellOrdersAllowed, metrics = None\<rparr>, e)
      else
        let (drawdownCheck, e1) = checkDrawdown gp e in
        if \<not> allowed drawdownCheck
        then (\<lparr>allowed = False,
               reason = DrawdownExceeds
                          (js_mul (currentDrawdown drawdownCheck) (Fin 100))
                          (js_mul (maxPortfolioDrawdown (limits (riskManager e1))) (Fin 100)),
               metrics = None\<rparr>, e1)
        else
          let (positionCheck, e2) = checkPositionSize gp smb qty p e1 in
          if \<not> allowed positionCheck
          then (\<lparr>allowed = False,
                 reason = PositionSizeExceeds
                            (js_mul (currentSize positionCheck) (Fin 100))
                            (js_mul (maxPositionSize (limits (riskManager e2))) (Fin 100)),
                 metrics = None\<rparr>, e2)
          else
            let (pv, e3) = getPortfolioValue gp e2;
                tradeCost = js_mul p qty;
                risk = js_div tradeCost pv
            in if js_gt risk (maxRiskPerTrade (limits (riskManager e3)))
               then (\<lparr>allowed = False,
                      reason = RiskPerTradeExceeds
                                 (js_mul risk (Fin 100))
                                 (js_mul (maxRiskPerTrade (limits (riskManager e3))) (Fin 100)),
                      metrics = None\<rparr>, e3)
               else (\<lparr>allowed = True, reason = PassesAllRiskChecks,
                      metrics = Some \<lparr>riskPerTrade = js_mul risk (Fin 100),
                                      positionSize = js_mul (currentSize positionCheck) (Fin 100),
                                      drawdown = js_mul (currentDrawdown drawdownCheck) (Fin 100)\<rparr>\<rparr>,
                     e3))"

subsection \<open>getRiskMetrics\<close>

record positionDetail =
  pd_quantity :: jsnum
  pd_value :: jsnum
  percentOfPortfolio :: jsnum

record riskMetrics =
  rm_portfolioValue :: jsnum
  rm_peakValue :: jsnum
  rm_drawdown :: jsnum
  drawdownAllowed :: bool
  rm_positions :: "(string \<times> positionDetail) list"
  rm_limits :: limits

text \<open>The second loop over the positions, which reads each price once more.\<close>

fun positionDetails ::
  "priceOracle \<Rightarrow> nat \<Rightarrow> jsnum \<Rightarrow> (string \<times> jsnum) list \<Rightarrow> (string \<times> positionDetail) list \<times> nat" where
  "positionDetails gp n pv [] = ([], n)"
| "positionDetails gp n pv ((smb, qty) # rest) =
     (let v = js_mul qty (gp n smb);
          d = \<lparr>pd_quantity = qty, pd_value = v,
               percentOfPortfolio = js_mul (js_div v pv) (Fin 100)\<rparr>;
          (ds, n') = positionDetails gp (Suc n) pv rest
      in ((smb, d) # ds, n'))"

definition getRiskMetrics :: "priceOracle \<Rightarrow> tradingEngine \<Rightarrow> riskMetrics \<times> tradingEngine" where
  "getRiskMetrics gp e =
     (let (pv, e1) = getPortfolioValue gp e;
          (dd, e2) = checkDrawdown gp e1;
          (ds, n) = positionDetails gp (priceReads e2) pv (positions (portfolio e2));
          lim = limits (riskManager e2)
      in (\<lparr>rm_portfolioValue = pv,
           rm_peakValue = peakPortfolioValue (riskManager e2),
           rm_drawdown = js_mul (currentDrawdown dd) (Fin 100),
           drawdownAllowed = allowed dd,
           rm_positions = ds,
           rm_limits = \<lparr>maxRiskPerTrade = js_mul (maxRiskPerTrade lim) (Fin 100),
                        maxPortfolioDrawdown = js_mul (maxPortfolioDrawdown lim) (Fin 100),
                        maxPositionSize = js_mul (maxPositionSize lim) (Fin 100)\<rparr>\<rparr>,
          e2\<lparr>priceReads := n\<rparr>))"

section \<open>TradingEngine\<close>

definition newTradingEngine :: tradingEngine where
  "newTradingEngine =
     (let pf = \<lparr>cash = Fin 100000, positions = [], history = []\<rparr>
      in \<lparr>portfolio = pf, mode = ''paper'', memory = [],
          riskManager = newRiskManager pf, priceReads = 0\<rparr>)"

text \<open>\<open>positions[symbol] = v\<close>: an existing key keeps its place, a new key is appended.\<close>

fun assign :: "string \<Rightarrow> jsnum \<Rightarrow> (string \<times> jsnum) list \<Rightarrow> (string \<times> jsnum) list" where
  "assign k v [] = [(k, v)]"
| "assign k v ((k', v') # rest) =
     (if k' = k then (k, v) # rest else (k', v') # assign k v rest)"

definition recordTrade ::
  "int \<Rightarrow> string \<Rightarrow> string \<Rightarrow> jsnum \<Rightarrow> jsnum \<Rightarrow> tradingEngine \<Rightarrow> tradingEngine" where
  "recordTrade now act smb qty p e =
     (let t = \<lparr>action = act, symbol = smb, quantity = qty, price = p, timestamp = now\<rparr>;
          pf = portfolio e
      in e\<lparr>portfolio := pf\<lparr>history := history pf @ [t]\<rparr>, memory := memory e @ [t]\<rparr>)"

text \<open>
  \<open>buy\<close>: one price read, the risk check, then the funds check. \<open>now\<close> is what
  \<open>new Date()\<close> gives when the trade is recorded.
\<close>

definition buy ::
  "priceOracle \<Rightarrow> int \<Rightarrow> string \<Rightarrow> jsnum \<Rightarrow> tradingEngine \<Rightarrow> buyResult \<times> tradingEngine" where
  "buy gp now smb qty e =
     (let p = gp (priceReads e) smb;
          e0 = e\<lparr>priceReads := Suc (priceReads e)\<rparr>;
          cost = js_mul p qty;
          (riskCheck, e1) = checkTrade gp ''buy'' smb qty p e0
      in if \<not> allowed riskCheck then (Refused (reason riskCheck), e1)
         else if js_ge (cash (portfolio e1)) cost
         then
           let pf = portfolio e1;
               pf' = pf\<lparr>cash := js_sub (cash pf) cost,
                        positions := assign smb (js_add (js_or0 (map_of (positions pf) smb)) qty)
                                       (positions pf)\<rparr>;
               e2 = recordTrade now ''buy'' smb qty p (e1\<lparr>portfolio := pf'\<rparr>)
           in (Bought p qty (metrics riskCheck), e2)
         else (Refused InsufficientFunds, e1))"

text \<open>
  An engine in a given state, as the tests of the repository build one: the cash, the
  positions and the peak are set directly, the limits are those of the constructor.
\<close>

definition engineWith :: "jsnum \<Rightarrow> (string \<times> jsnum) list \<Rightarrow> jsnum \<Rightarrow> tradingEngine" where
  "engineWith c ps pk =
     \<lparr>portfolio = \<lparr>cash = c, positions = ps, history = []\<rparr>, mode = ''paper'', memory = [],
      riskManager = \<lparr>limits = newLimits, initialCapital = Fin 100000, peakPortfolioValue = pk\<rparr>,
      priceReads = 0\<rparr>"

section \<open>Sequences of calls\<close>

text \<open>The public methods of the two classes, and what a caller can do in a session.\<close>

datatype operation =
    GetPortfolioValue
  | CheckDrawdown
  | CheckPositionSize string jsnum jsnum
  | CheckTrade string string jsnum jsnum
  | GetRiskMetrics
  | Buy int string jsnum

fun perform :: "priceOracle \<Rightarrow> operation \<Rightarrow> tradingEngine \<Rightarrow> tradingEngine" where
  "perform gp GetPortfolioValue e = snd (getPortfolioValue gp e)"
| "perform gp CheckDrawdown e = snd (checkDrawdown gp e)"
| "perform gp (CheckPositionSize smb qty p) e = snd (checkPositionSize gp smb qty p e)"
| "perform gp (CheckTrade act smb qty p) e = snd (checkTrade gp act smb qty p e)"
| "perform gp GetRiskMetrics e = snd (getRiskMetrics gp e)"
| "perform gp (Buy now smb qty) e = snd (buy gp now smb qty e)"

fun performAll :: "priceOracle \<Rightarrow> operation list \<Rightarrow> tradingEngine \<Rightarrow> tradingEngine" where
  "performAll gp [] e = e"
| "performAll gp (x # xs) e = performAll gp xs (perform gp x e)"

text \<open>
  \<open>nondecreasing a b\<close>: the later value \<open>b\<close> is the earlier one or greater than it.
  (A \<open>NaN\<close> is not greater than anything, and nothing is greater than it.)
\<close>

definition nondecreasing :: "jsnum \<Rightarrow> jsnum \<Rightarrow> bool" where
  "nondecreasing a b = (a = b \<or> js_lt a b)"

section \<open>Facts about the numbers\<close>

lemma js_lt_irrefl: "\<not> js_lt x x"
  by (cases x) simp_all

lemma js_lt_trans: "js_lt x y \<Longrightarrow> js_lt y z \<Longrightarrow> js_lt x z"
  by (cases x; cases y; cases z) simp_all

lemma js_lt_asym: "js_lt x y \<Longrightarrow> \<not> js_lt y x"
  by (cases x; cases y) simp_all

lemma js_le_refl: "x \<noteq> NaN \<Longrightarrow> js_le x x"
  by (cases x) simp_all

lemma js_lt_imp_le: "js_lt x y \<Longrightarrow> js_le x y"
  by (cases x; cases y) simp_all

lemma js_lt_not_le: "js_lt y x \<Longrightarrow> \<not> js_le x y"
  by (cases x; cases y) simp_all

lemma js_not_le_iff: "x \<noteq> NaN \<Longrightarrow> y \<noteq> NaN \<Longrightarrow> (\<not> js_le y x) = js_lt x y"
  by (cases x; cases y) auto

lemma nondecreasing_refl: "nondecreasing a a"
  by (simp add: nondecreasing_def)

lemma nondecreasing_trans: "nondecreasing a b \<Longrightarrow> nondecreasing b c \<Longrightarrow> nondecreasing a c"
  unfolding nondecreasing_def using js_lt_trans by blast

lemma nondecreasing_not_lt: "nondecreasing a b \<Longrightarrow> \<not> js_lt b a"
  unfolding nondecreasing_def using js_lt_irrefl js_lt_asym by blast

section \<open>What each method leaves alone\<close>

lemma getPortfolioValue_fst:
  "fst (getPortfolioValue gp e) =
     fst (sumPositions gp (priceReads e) (positions (portfolio e)) (cash (portfolio e)))"
  by (simp add: getPortfolioValue_def Let_def split: prod.split)

lemma getPortfolioValue_portfolio: "portfolio (snd (getPortfolioValue gp e)) = portfolio e"
  by (simp add: getPortfolioValue_def Let_def split: prod.split)

lemma getPortfolioValue_memory: "memory (snd (getPortfolioValue gp e)) = memory e"
  by (simp add: getPortfolioValue_def Let_def split: prod.split)

lemma getPortfolioValue_limits:
  "limits (riskManager (snd (getPortfolioValue gp e))) = limits (riskManager e)"
  by (simp add: getPortfolioValue_def Let_def split: prod.split)

lemma getPortfolioValue_peak:
  "peakPortfolioValue (riskManager (snd (getPortfolioValue gp e))) =
     (if js_gt (fst (getPortfolioValue gp e)) (peakPortfolioValue (riskManager e))
      then fst (getPortfolioValue gp e) else peakPortfolioValue (riskManager e))"
  by (simp add: getPortfolioValue_def Let_def split: prod.split)

lemma getPortfolioValue_nondecreasing:
  "nondecreasing (peakPortfolioValue (riskManager e))
     (peakPortfolioValue (riskManager (snd (getPortfolioValue gp e))))"
  by (simp add: getPortfolioValue_peak nondecreasing_def js_gt_def)

lemma checkDrawdown_snd: "snd (checkDrawdown gp e) = snd (getPortfolioValue gp e)"
  by (simp add: checkDrawdown_def Let_def split: prod.split)

lemma checkPositionSize_snd:
  "snd (checkPositionSize gp smb qty p e) = snd (getPortfolioValue gp e)"
  by (simp add: checkPositionSize_def Let_def split: prod.split)

lemma checkDrawdown_fst:
  "fst (checkDrawdown gp e) =
     (let cur = fst (getPortfolioValue gp e);
          pk = peakPortfolioValue (riskManager (snd (getPortfolioValue gp e)));
          dd = js_div (js_sub pk cur) pk
      in \<lparr>allowed = js_le dd (maxPortfolioDrawdown (limits (riskManager e))),
          currentDrawdown = dd, peakValue = pk, currentValue = cur\<rparr>)"
proof -
  obtain v e1 where g: "getPortfolioValue gp e = (v, e1)"
    by (cases "getPortfolioValue gp e") blast
  have "limits (riskManager e1) = limits (riskManager e)"
    using getPortfolioValue_limits [of gp e] g by simp
  then show ?thesis
    by (simp add: checkDrawdown_def g Let_def)
qed

lemma checkPositionSize_fst:
  "fst (checkPositionSize gp smb qty p e) =
     (let pv = fst (getPortfolioValue gp e);
          pval = js_mul (js_add (js_or0 (map_of (positions (portfolio e)) smb)) qty) p;
          psize = js_div pval pv
      in \<lparr>allowed = js_le psize (maxPositionSize (limits (riskManager e))),
          currentSize = psize, positionValue = pval, portfolioValue = pv\<rparr>)"
proof -
  obtain v e1 where g: "getPortfolioValue gp e = (v, e1)"
    by (cases "getPortfolioValue gp e") blast
  have "limits (riskManager e1) = limits (riskManager e)"
    and "portfolio e1 = portfolio e"
    using getPortfolioValue_limits [of gp e] getPortfolioValue_portfolio [of gp e] g by simp_all
  then show ?thesis
    by (simp add: checkPositionSize_def g Let_def)
qed

text \<open>\<open>checkTrade\<close> on a buy, in terms of its three steps.\<close>

lemma checkTrade_buy:
  assumes "checkDrawdown gp e = (dc, e1)"
      and "checkPositionSize gp smb qty p e1 = (pc, e2)"
      and "getPortfolioValue gp e2 = (pv, e3)"
  shows "checkTrade gp ''buy'' smb qty p e =
     (if \<not> allowed dc
      then (\<lparr>allowed = False,
             reason = DrawdownExceeds (js_mul (currentDrawdown dc) (Fin 100))
                        (js_mul (maxPortfolioDrawdown (limits (riskManager e))) (Fin 100)),
             metrics = None\<rparr>, e1)
      else if \<not> allowed pc
      then (\<lparr>allowed = False,
             reason = PositionSizeExceeds (js_mul (currentSize pc) (Fin 100))
                        (js_mul (maxPositionSize (limits (riskManager e))) (Fin 100)),
             metrics = None\<rparr>, e2)
      else if js_gt (js_div (js_mul p qty) pv) (maxRiskPerTrade (limits (riskManager e)))
      then (\<lparr>allowed = False,
             reason = RiskPerTradeExceeds (js_mul (js_div (js_mul p qty) pv) (Fin 100))
                        (js_mul (maxRiskPerTrade (limits (riskManager e))) (Fin 100)),
             metrics = None\<rparr>, e3)
      else (\<lparr>allowed = True, reason = PassesAllRiskChecks,
             metrics = Some \<lparr>riskPerTrade = js_mul (js_div (js_mul p qty) pv) (Fin 100),
                             positionSize = js_mul (currentSize pc) (Fin 100),
                             drawdown = js_mul (currentDrawdown dc) (Fin 100)\<rparr>\<rparr>, e3))"
proof -
  have l1: "limits (riskManager e1) = limits (riskManager e)"
    using checkDrawdown_snd [of gp e] getPortfolioValue_limits [of gp e] assms(1) by simp
  have l2: "limits (riskManager e2) = limits (riskManager e1)"
    using checkPositionSize_snd [of gp smb qty p e1] getPortfolioValue_limits [of gp e1] assms(2)
    by simp
  have l3: "limits (riskManager e3) = limits (riskManager e2)"
    using getPortfolioValue_limits [of gp e2] assms(3) by simp
  show ?thesis
    by (simp add: checkTrade_def assms Let_def l1 l2 l3)
qed

lemma checkTrade_portfolio: "portfolio (snd (checkTrade gp act smb qty p e)) = portfolio e"
proof (cases "act = ''buy''")
  case False
  then show ?thesis by (simp add: checkTrade_def)
next
  case True
  obtain dc e1 where d: "checkDrawdown gp e = (dc, e1)"
    by (cases "checkDrawdown gp e") blast
  obtain pc e2 where c: "checkPositionSize gp smb qty p e1 = (pc, e2)"
    by (cases "checkPositionSize gp smb qty p e1") blast
  obtain pv e3 where g: "getPortfolioValue gp e2 = (pv, e3)"
    by (cases "getPortfolioValue gp e2") blast
  have p1: "portfolio e1 = portfolio e"
    using checkDrawdown_snd [of gp e] getPortfolioValue_portfolio [of gp e] d by simp
  have p2: "portfolio e2 = portfolio e1"
    using checkPositionSize_snd [of gp smb qty p e1] getPortfolioValue_portfolio [of gp e1] c
    by simp
  have p3: "portfolio e3 = portfolio e2"
    using getPortfolioValue_portfolio [of gp e2] g by simp
  show ?thesis
    unfolding True checkTrade_buy [OF d c g] using p1 p2 p3 by simp
qed

lemma checkTrade_memory: "memory (snd (checkTrade gp act smb qty p e)) = memory e"
proof (cases "act = ''buy''")
  case False
  then show ?thesis by (simp add: checkTrade_def)
next
  case True
  obtain dc e1 where d: "checkDrawdown gp e = (dc, e1)"
    by (cases "checkDrawdown gp e") blast
  obtain pc e2 where c: "checkPositionSize gp smb qty p e1 = (pc, e2)"
    by (cases "checkPositionSize gp smb qty p e1") blast
  obtain pv e3 where g: "getPortfolioValue gp e2 = (pv, e3)"
    by (cases "getPortfolioValue gp e2") blast
  have p1: "memory e1 = memory e"
    using checkDrawdown_snd [of gp e] getPortfolioValue_memory [of gp e] d by simp
  have p2: "memory e2 = memory e1"
    using checkPositionSize_snd [of gp smb qty p e1] getPortfolioValue_memory [of gp e1] c
    by simp
  have p3: "memory e3 = memory e2"
    using getPortfolioValue_memory [of gp e2] g by simp
  show ?thesis
    unfolding True checkTrade_buy [OF d c g] using p1 p2 p3 by simp
qed

lemma checkTrade_nondecreasing:
  "nondecreasing (peakPortfolioValue (riskManager e))
     (peakPortfolioValue (riskManager (snd (checkTrade gp act smb qty p e))))"
proof (cases "act = ''buy''")
  case False
  then show ?thesis by (simp add: checkTrade_def nondecreasing_refl)
next
  case True
  obtain dc e1 where d: "checkDrawdown gp e = (dc, e1)"
    by (cases "checkDrawdown gp e") blast
  obtain pc e2 where c: "checkPositionSize gp smb qty p e1 = (pc, e2)"
    by (cases "checkPositionSize gp smb qty p e1") blast
  obtain pv e3 where g: "getPortfolioValue gp e2 = (pv, e3)"
    by (cases "getPortfolioValue gp e2") blast
  have n1: "nondecreasing (peakPortfolioValue (riskManager e)) (peakPortfolioValue (riskManager e1))"
    using checkDrawdown_snd [of gp e] getPortfolioValue_nondecreasing [of e gp] d by simp
  have n2: "nondecreasing (peakPortfolioValue (riskManager e1)) (peakPortfolioValue (riskManager e2))"
    using checkPositionSize_snd [of gp smb qty p e1] getPortfolioValue_nondecreasing [of e1 gp] c
    by simp
  have n3: "nondecreasing (peakPortfolioValue (riskManager e2)) (peakPortfolioValue (riskManager e3))"
    using getPortfolioValue_nondecreasing [of e2 gp] g by simp
  note n12 = nondecreasing_trans [OF n1 n2]
  note n13 = nondecreasing_trans [OF n12 n3]
  show ?thesis
    unfolding True checkTrade_buy [OF d c g] using n1 n12 n13 by simp
qed

lemma getRiskMetrics_nondecreasing:
  "nondecreasing (peakPortfolioValue (riskManager e))
     (peakPortfolioValue (riskManager (snd (getRiskMetrics gp e))))"
proof -
  obtain pv e1 where g: "getPortfolioValue gp e = (pv, e1)"
    by (cases "getPortfolioValue gp e") blast
  obtain dc e2 where d: "checkDrawdown gp e1 = (dc, e2)"
    by (cases "checkDrawdown gp e1") blast
  have n1: "nondecreasing (peakPortfolioValue (riskManager e)) (peakPortfolioValue (riskManager e1))"
    using getPortfolioValue_nondecreasing [of e gp] g by simp
  have n2: "nondecreasing (peakPortfolioValue (riskManager e1)) (peakPortfolioValue (riskManager e2))"
    using checkDrawdown_snd [of gp e1] getPortfolioValue_nondecreasing [of e1 gp] d by simp
  have "peakPortfolioValue (riskManager (snd (getRiskMetrics gp e))) =
        peakPortfolioValue (riskManager e2)"
    by (simp add: getRiskMetrics_def g d Let_def split: prod.split)
  with nondecreasing_trans [OF n1 n2] show ?thesis by simp
qed

text \<open>\<open>buy\<close> in terms of the risk check it makes.\<close>

lemma buy_unfold:
  assumes "checkTrade gp ''buy'' smb qty (gp (priceReads e) smb)
             (e\<lparr>priceReads := Suc (priceReads e)\<rparr>) = (rc, e1)"
  shows "buy gp now smb qty e =
     (if \<not> allowed rc then (Refused (reason rc), e1)
      else if js_ge (cash (portfolio e)) (js_mul (gp (priceReads e) smb) qty)
      then (Bought (gp (priceReads e) smb) qty (metrics rc),
            recordTrade now ''buy'' smb qty (gp (priceReads e) smb)
              (e1\<lparr>portfolio := (portfolio e)
                 \<lparr>cash := js_sub (cash (portfolio e)) (js_mul (gp (priceReads e) smb) qty),
                  positions := assign smb
                      (js_add (js_or0 (map_of (positions (portfolio e)) smb)) qty)
                      (positions (portfolio e))\<rparr>\<rparr>))
      else (Refused InsufficientFunds, e1))"
proof -
  have "portfolio e1 = portfolio e"
    using checkTrade_portfolio [of gp "''buy''" smb qty "gp (priceReads e) smb"
        "e\<lparr>priceReads := Suc (priceReads e)\<rparr>"] assms by simp
  then show ?thesis
    by (simp add: buy_def assms Let_def)
qed

lemma buy_refused_frame:
  assumes "\<not> success (fst (buy gp now smb qty e))"
  shows "portfolio (snd (buy gp now smb qty e)) = portfolio e"
    and "memory (snd (buy gp now smb qty e)) = memory e"
proof -
  let ?e0 = "e\<lparr>priceReads := Suc (priceReads e)\<rparr>"
  let ?p = "gp (priceReads e) smb"
  obtain rc e1 where c: "checkTrade gp ''buy'' smb qty ?p ?e0 = (rc, e1)"
    by (cases "checkTrade gp ''buy'' smb qty ?p ?e0") blast
  have pf: "portfolio e1 = portfolio e"
    using checkTrade_portfolio [of gp "''buy''" smb qty ?p ?e0] c by simp
  have mm: "memory e1 = memory e"
    using checkTrade_memory [of gp "''buy''" smb qty ?p ?e0] c by simp
  show "portfolio (snd (buy gp now smb qty e)) = portfolio e"
    using assms pf unfolding buy_unfold [OF c] by (simp split: if_splits)
  show "memory (snd (buy gp now smb qty e)) = memory e"
    using assms mm unfolding buy_unfold [OF c] by (simp split: if_splits)
qed

lemma buy_nondecreasing:
  "nondecreasing (peakPortfolioValue (riskManager e))
     (peakPortfolioValue (riskManager (snd (buy gp now smb qty e))))"
proof -
  let ?e0 = "e\<lparr>priceReads := Suc (priceReads e)\<rparr>"
  let ?p = "gp (priceReads e) smb"
  obtain rc e1 where c: "checkTrade gp ''buy'' smb qty ?p ?e0 = (rc, e1)"
    by (cases "checkTrade gp ''buy'' smb qty ?p ?e0") blast
  have "nondecreasing (peakPortfolioValue (riskManager ?e0)) (peakPortfolioValue (riskManager e1))"
    using checkTrade_nondecreasing [of ?e0 gp "''buy''" smb qty ?p] c by simp
  then have n: "nondecreasing (peakPortfolioValue (riskManager e)) (peakPortfolioValue (riskManager e1))"
    by simp
  show ?thesis
    unfolding buy_unfold [OF c] using n by (simp add: recordTrade_def Let_def)
qed

lemma perform_nondecreasing:
  "nondecreasing (peakPortfolioValue (riskManager e))
     (peakPortfolioValue (riskManager (perform gp x e)))"
proof (cases x)
  case GetPortfolioValue
  then show ?thesis by (simp add: getPortfolioValue_nondecreasing)
next
  case CheckDrawdown
  then show ?thesis by (simp add: checkDrawdown_snd getPortfolioValue_nondecreasing)
next
  case (CheckPositionSize smb qty p)
  then show ?thesis by (simp add: checkPositionSize_snd getPortfolioValue_nondecreasing)
next
  case (CheckTrade act smb qty p)
  then show ?thesis by (simp add: checkTrade_nondecreasing)
next
  case GetRiskMetrics
  then show ?thesis by (simp add: getRiskMetrics_nondecreasing)
next
  case (Buy now smb qty)
  then show ?thesis by (simp add: buy_nondecreasing)
qed

lemma performAll_nondecreasing:
  "nondecreasing (peakPortfolioValue (riskManager e))
     (peakPortfolioValue (riskManager (performAll gp xs e)))"
proof (induction xs arbitrary: e)
  case Nil
  show ?case by (simp add: nondecreasing_refl)
next
  case (Cons x xs)
  have "nondecreasing (peakPortfolioValue (riskManager e))
          (peakPortfolioValue (riskManager (perform gp x e)))"
    by (rule perform_nondecreasing)
  moreover have "nondecreasing (peakPortfolioValue (riskManager (perform gp x e)))
          (peakPortfolioValue (riskManager (performAll gp xs (perform gp x e))))"
    by (rule Cons.IH)
  ultimately show ?case
    using nondecreasing_trans by simp
qed

section \<open>What a buy does to the ledger\<close>

lemma map_of_assign_same: "map_of (assign k v ps) k = Some v"
  by (induction ps) auto

lemma map_of_assign_other: "k' \<noteq> k \<Longrightarrow> map_of (assign k v ps) k' = map_of ps k'"
  by (induction ps) auto

lemma js_or0_stored:
  "m \<noteq> Some NaN \<Longrightarrow> js_or0 m = (case m of None \<Rightarrow> Fin 0 | Some q \<Rightarrow> q)"
  by (cases m rule: js_or0.cases) simp_all

lemma checkTrade_buy_reason:
  "reason (fst (checkTrade gp ''buy'' smb qty p e)) \<noteq> InsufficientFunds"
proof -
  obtain dc e1 where d: "checkDrawdown gp e = (dc, e1)"
    by (cases "checkDrawdown gp e") blast
  obtain pc e2 where c: "checkPositionSize gp smb qty p e1 = (pc, e2)"
    by (cases "checkPositionSize gp smb qty p e1") blast
  obtain pv e3 where g: "getPortfolioValue gp e2 = (pv, e3)"
    by (cases "getPortfolioValue gp e2") blast
  show ?thesis
    unfolding checkTrade_buy [OF d c g] by simp
qed

lemma buy_fst:
  "fst (buy gp now smb qty e) =
     (let p = gp (priceReads e) smb;
          rc = fst (checkTrade gp ''buy'' smb qty p (e\<lparr>priceReads := Suc (priceReads e)\<rparr>))
      in if \<not> allowed rc then Refused (reason rc)
         else if js_ge (cash (portfolio e)) (js_mul p qty) then Bought p qty (metrics rc)
         else Refused InsufficientFunds)"
proof -
  let ?e0 = "e\<lparr>priceReads := Suc (priceReads e)\<rparr>"
  let ?p = "gp (priceReads e) smb"
  obtain rc e1 where c: "checkTrade gp ''buy'' smb qty ?p ?e0 = (rc, e1)"
    by (cases "checkTrade gp ''buy'' smb qty ?p ?e0") blast
  show ?thesis
    unfolding buy_unfold [OF c] by (simp add: c Let_def)
qed

lemma buy_bought_portfolio:
  assumes "success (fst (buy gp now smb qty e))"
  shows "portfolio (snd (buy gp now smb qty e)) =
     \<lparr>cash = js_sub (cash (portfolio e)) (js_mul (gp (priceReads e) smb) qty),
      positions = assign smb (js_add (js_or0 (map_of (positions (portfolio e)) smb)) qty)
                    (positions (portfolio e)),
      history = history (portfolio e) @
        [\<lparr>action = ''buy'', symbol = smb, quantity = qty, price = gp (priceReads e) smb,
          timestamp = now\<rparr>]\<rparr>"
proof -
  let ?e0 = "e\<lparr>priceReads := Suc (priceReads e)\<rparr>"
  let ?p = "gp (priceReads e) smb"
  obtain rc e1 where c: "checkTrade gp ''buy'' smb qty ?p ?e0 = (rc, e1)"
    by (cases "checkTrade gp ''buy'' smb qty ?p ?e0") blast
  show ?thesis
    using assms unfolding buy_unfold [OF c]
    by (simp add: recordTrade_def Let_def split: if_splits)
qed

section \<open>Division by a zero value\<close>

lemma checkTrade_buy_allowed:
  assumes "checkDrawdown gp e = (dc, e1)"
      and "checkPositionSize gp smb qty p e1 = (pc, e2)"
      and "getPortfolioValue gp e2 = (pv, e3)"
  shows "allowed (fst (checkTrade gp ''buy'' smb qty p e)) =
     (allowed dc \<and> allowed pc \<and>
      \<not> js_gt (js_div (js_mul p qty) pv) (maxRiskPerTrade (limits (riskManager e))))"
  unfolding checkTrade_buy [OF assms] by simp

text \<open>
  When the value computed by the drawdown check is zero, the peak is zero or more after
  the update, and the drawdown is 1 (a positive peak) or \<open>NaN\<close> (a peak of zero or
  \<open>Infinity\<close>): the drawdown check denies, under the limit of the constructor.
\<close>

lemma drawdown_of_zero_value:
  assumes "k' = (if js_gt (Fin 0) k then Fin 0 else k)"
  shows "\<not> js_le (js_div (js_sub k' (Fin 0)) k') (Fin (10 / 100))"
  using assms by (cases k) (simp_all add: js_gt_def js_sub_def)

lemma checkDrawdown_zero_value_denied:
  assumes "limits (riskManager e) = newLimits"
      and "currentValue (fst (checkDrawdown gp e)) = Fin 0"
  shows "\<not> allowed (fst (checkDrawdown gp e))"
proof -
  have v: "fst (getPortfolioValue gp e) = Fin 0"
    using assms(2) unfolding checkDrawdown_fst by (simp add: Let_def)
  have pk: "peakPortfolioValue (riskManager (snd (getPortfolioValue gp e))) =
        (if js_gt (Fin 0) (peakPortfolioValue (riskManager e)) then Fin 0
         else peakPortfolioValue (riskManager e))"
    using getPortfolioValue_peak [of gp e] v by simp
  show ?thesis
    unfolding checkDrawdown_fst
    using drawdown_of_zero_value [OF pk]
    by (simp add: Let_def v assms(1) newLimits_def)
qed

section \<open>Stored quantities are numbers\<close>

text \<open>
  No accepted buy stores a \<open>NaN\<close>: the position-size check has compared the new
  quantity, times the price and over the value, with the limit, and a comparison with
  \<open>NaN\<close> is false. So a ledger without \<open>NaN\<close> quantities stays so.
\<close>

lemma js_le_not_NaN: "js_le x y \<Longrightarrow> x \<noteq> NaN"
  by (cases x) simp_all

lemma js_div_not_NaN: "js_div x y \<noteq> NaN \<Longrightarrow> x \<noteq> NaN"
  by (cases x) simp_all

lemma js_mul_not_NaN: "js_mul x y \<noteq> NaN \<Longrightarrow> x \<noteq> NaN"
  by (cases x) simp_all

lemma set_assign: "set (assign k v ps) \<subseteq> insert (k, v) (set ps)"
  by (induction ps) (auto split: if_splits)

lemma buy_new_quantity_not_NaN:
  assumes "success (fst (buy gp now smb qty e))"
  shows "js_add (js_or0 (map_of (positions (portfolio e)) smb)) qty \<noteq> NaN"
proof -
  let ?p = "gp (priceReads e) smb"
  let ?e0 = "e\<lparr>priceReads := Suc (priceReads e)\<rparr>"
  let ?e1 = "snd (checkDrawdown gp ?e0)"
  let ?pc = "fst (checkPositionSize gp smb qty ?p ?e1)"
  have "allowed (fst (checkTrade gp ''buy'' smb qty ?p ?e0))"
    using assms unfolding buy_fst by (simp add: Let_def split: if_splits)
  then have "allowed ?pc"
    unfolding checkTrade_buy_allowed [OF prod.collapse [symmetric] prod.collapse [symmetric]
        prod.collapse [symmetric]] by simp
  moreover have "portfolio ?e1 = portfolio e"
    by (simp add: checkDrawdown_snd getPortfolioValue_portfolio)
  ultimately have "js_le (js_div (js_mul (js_add (js_or0 (map_of (positions (portfolio e)) smb)) qty) ?p)
                     (fst (getPortfolioValue gp ?e1))) (maxPositionSize (limits (riskManager ?e1)))"
    unfolding checkPositionSize_fst by (simp add: Let_def)
  then show ?thesis
    using js_le_not_NaN js_div_not_NaN js_mul_not_NaN by blast
qed

lemma buy_positions_not_NaN:
  assumes "NaN \<notin> snd ` set (positions (portfolio e))"
  shows "NaN \<notin> snd ` set (positions (portfolio (snd (buy gp now smb qty e))))"
proof (cases "success (fst (buy gp now smb qty e))")
  case False
  then show ?thesis using assms buy_refused_frame(1) [of gp now smb qty e] by simp
next
  case True
  let ?q = "js_add (js_or0 (map_of (positions (portfolio e)) smb)) qty"
  have "positions (portfolio (snd (buy gp now smb qty e))) = assign smb ?q (positions (portfolio e))"
    using buy_bought_portfolio [OF True] by simp
  moreover have "?q \<noteq> NaN"
    using True by (rule buy_new_quantity_not_NaN)
  ultimately show ?thesis
    using assms set_assign [of smb ?q "positions (portfolio e)"] by force
qed

lemma getRiskMetrics_portfolio: "portfolio (snd (getRiskMetrics gp e)) = portfolio e"
proof -
  obtain pv e1 where g: "getPortfolioValue gp e = (pv, e1)"
    by (cases "getPortfolioValue gp e") blast
  obtain dc e2 where d: "checkDrawdown gp e1 = (dc, e2)"
    by (cases "checkDrawdown gp e1") blast
  have "portfolio e1 = portfolio e"
    using getPortfolioValue_portfolio [of gp e] g by simp
  moreover have "portfolio e2 = portfolio e1"
    using checkDrawdown_snd [of gp e1] getPortfolioValue_portfolio [of gp e1] d by simp
  ultimately show ?thesis
    by (simp add: getRiskMetrics_def g d Let_def split: prod.split)
qed

lemma perform_positions_not_NaN:
  assumes "NaN \<notin> snd ` set (positions (portfolio e))"
  shows "NaN \<notin> snd ` set (positions (portfolio (perform gp x e)))"
proof (cases x)
  case (Buy now smb qty)
  then show ?thesis using buy_positions_not_NaN [OF assms] by simp
qed (use assms in \<open>simp_all add: getPortfolioValue_portfolio checkDrawdown_snd
      checkPositionSize_snd checkTrade_portfolio getRiskMetrics_portfolio\<close>)

lemma performAll_positions_not_NaN:
  "NaN \<notin> snd ` set (positions (portfolio e)) \<Longrightarrow>
   NaN \<notin> snd ` set (positions (portfolio (performAll gp xs e)))"
  by (induction xs arbitrary: e) (simp_all add: perform_positions_not_NaN)

lemma reachable_positions_not_NaN:
  "map_of (positions (portfolio (performAll gp xs newTradingEngine))) smb \<noteq> Some NaN"
proof -
  have "NaN \<notin> snd ` set (positions (portfolio newTradingEngine))"
    by (simp add: newTradingEngine_def Let_def)
  then have "NaN \<notin> snd ` set (positions (portfolio (performAll gp xs newTradingEngine)))"
    by (rule performAll_positions_not_NaN)
  then show ?thesis
    by (metis map_of_SomeD image_eqI snd_conv)
qed

lemmas engine_defs =
  buy_def checkTrade_def checkDrawdown_def checkPositionSize_def getPortfolioValue_def
  getPrice_def newTradingEngine_def newRiskManager_def newLimits_def engineWith_def
  recordTrade_def js_sub_def js_gt_def js_ge_def Let_def

section \<open>The claims\<close>

text \<open>
  C1. The claim is that a buy whose risk per trade is exactly \<open>maxRiskPerTrade\<close> is
  denied. The code denies only when \<open>riskPerTrade > maxRiskPerTrade\<close>: on a new engine a
  buy of 10 at 100 has a risk of 1000 / 100000, which is the limit 0.01, passes the
  drawdown and position-size checks, and is allowed.
\<close>

theorem risk_at_threshold_counterexample:
  "js_div (js_mul (Fin 100) (Fin 10))
     (fst (getPortfolioValue (\<lambda>n s. Fin 150)
        (snd (checkPositionSize (\<lambda>n s. Fin 150) ''AAPL'' (Fin 10) (Fin 100)
           (snd (checkDrawdown (\<lambda>n s. Fin 150) newTradingEngine)))))) =
     maxRiskPerTrade (limits (riskManager newTradingEngine)) \<and>
   allowed (fst (checkDrawdown (\<lambda>n s. Fin 150) newTradingEngine)) \<and>
   allowed (fst (checkPositionSize (\<lambda>n s. Fin 150) ''AAPL'' (Fin 10) (Fin 100)
              (snd (checkDrawdown (\<lambda>n s. Fin 150) newTradingEngine)))) \<and>
   allowed (fst (checkTrade (\<lambda>n s. Fin 150) ''buy'' ''AAPL'' (Fin 10) (Fin 100)
              newTradingEngine))"
  by (simp add: engine_defs)

text \<open>
  C1, as the code has it. When the drawdown and the position-size checks pass, a buy
  is allowed exactly when its risk per trade does not exceed \<open>maxRiskPerTrade\<close>: a risk
  equal to the limit is allowed, a risk below it is allowed, and a risk above it is
  denied with the risk-per-trade reason.
\<close>

theorem risk_per_trade_threshold:
  assumes "checkDrawdown gp e = (dc, e1)"
      and "checkPositionSize gp smb qty p e1 = (pc, e2)"
      and "getPortfolioValue gp e2 = (pv, e3)"
      and "allowed dc" and "allowed pc"
  shows
   "allowed (fst (checkTrade gp ''buy'' smb qty p e)) =
      (\<not> js_gt (js_div (js_mul p qty) pv) (maxRiskPerTrade (limits (riskManager e)))) \<and>
    (js_div (js_mul p qty) pv = maxRiskPerTrade (limits (riskManager e)) \<longrightarrow>
       allowed (fst (checkTrade gp ''buy'' smb qty p e))) \<and>
    (js_lt (js_div (js_mul p qty) pv) (maxRiskPerTrade (limits (riskManager e))) \<longrightarrow>
       allowed (fst (checkTrade gp ''buy'' smb qty p e))) \<and>
    (js_gt (js_div (js_mul p qty) pv) (maxRiskPerTrade (limits (riskManager e))) \<longrightarrow>
       fst (checkTrade gp ''buy'' smb qty p e) =
         \<lparr>allowed = False,
          reason = RiskPerTradeExceeds (js_mul (js_div (js_mul p qty) pv) (Fin 100))
                     (js_mul (maxRiskPerTrade (limits (riskManager e))) (Fin 100)),
          metrics = None\<rparr>)"
proof -
  let ?risk = "js_div (js_mul p qty) pv"
  let ?max = "maxRiskPerTrade (limits (riskManager e))"
  have a: "allowed (fst (checkTrade gp ''buy'' smb qty p e)) = (\<not> js_gt ?risk ?max)"
    unfolding checkTrade_buy [OF assms(1-3)] using assms(4,5) by simp
  have b: "?risk = ?max \<longrightarrow> \<not> js_gt ?risk ?max"
    by (simp add: js_gt_def js_lt_irrefl)
  have c: "js_lt ?risk ?max \<longrightarrow> \<not> js_gt ?risk ?max"
    using js_lt_asym by (auto simp add: js_gt_def)
  have d: "js_gt ?risk ?max \<longrightarrow>
       fst (checkTrade gp ''buy'' smb qty p e) =
         \<lparr>allowed = False,
          reason = RiskPerTradeExceeds (js_mul ?risk (Fin 100)) (js_mul ?max (Fin 100)),
          metrics = None\<rparr>"
    unfolding checkTrade_buy [OF assms(1-3)] using assms(4,5) by simp
  from a b c d show ?thesis by blast
qed

theorem risk_per_trade_threshold_witness:
  "allowed (fst (checkTrade (\<lambda>n s. Fin 150) ''buy'' ''AAPL'' (Fin 10) (Fin 100)
              newTradingEngine)) \<and>
   \<not> allowed (fst (checkTrade (\<lambda>n s. Fin 150) ''buy'' ''AAPL'' (Fin 7) (Fin 150)
              newTradingEngine))"
proof -
  let ?gp = "\<lambda>(n::nat) (s::string). Fin 150"
  let ?n = "newTradingEngine"
  let ?n1 = "snd (checkDrawdown ?gp ?n)"
  let ?a2 = "snd (checkPositionSize ?gp ''AAPL'' (Fin 10) (Fin 100) ?n1)"
  let ?b2 = "snd (checkPositionSize ?gp ''AAPL'' (Fin 7) (Fin 150) ?n1)"
  have n1: "allowed (fst (checkDrawdown ?gp ?n))"
    and a2: "allowed (fst (checkPositionSize ?gp ''AAPL'' (Fin 10) (Fin 100) ?n1))"
    and b2: "allowed (fst (checkPositionSize ?gp ''AAPL'' (Fin 7) (Fin 150) ?n1))"
    by (simp_all add: engine_defs)
  have a3: "js_div (js_mul (Fin 100) (Fin 10)) (fst (getPortfolioValue ?gp ?a2)) =
            maxRiskPerTrade (limits (riskManager ?n))"
    and b3: "js_gt (js_div (js_mul (Fin 150) (Fin 7)) (fst (getPortfolioValue ?gp ?b2)))
            (maxRiskPerTrade (limits (riskManager ?n)))"
    by (simp_all add: engine_defs)
  note ta = risk_per_trade_threshold [OF prod.collapse [symmetric] prod.collapse [symmetric]
      prod.collapse [symmetric] n1 a2]
  note tb = risk_per_trade_threshold [OF prod.collapse [symmetric] prod.collapse [symmetric]
      prod.collapse [symmetric] n1 b2]
  have ra: "allowed (fst (checkTrade ?gp ''buy'' ''AAPL'' (Fin 10) (Fin 100) ?n))"
    using ta a3 by blast
  have rb: "\<not> allowed (fst (checkTrade ?gp ''buy'' ''AAPL'' (Fin 7) (Fin 150) ?n))"
    using tb b3 by blast
  from ra rb show ?thesis by simp
qed

text \<open>
  C2. For every accepted buy, the cash after it is the cash before minus price times
  quantity, and the quantity held of the symbol is the one held before (0 when the
  symbol was absent) plus the quantity bought. The price is the one read at the start of
  the call and reported in the result. (The arithmetic of the model is exact, so the
  tolerance of the claim is not needed; a stored quantity that is \<open>NaN\<close> would be
  read as 0 by \<open>|| 0\<close> and is excluded: by \<open>reachable_positions_not_NaN\<close> no state
  reached from a new engine has one.)
\<close>

theorem buy_conservation:
  assumes "success (fst (buy gp now smb qty e))"
      and "map_of (positions (portfolio e)) smb \<noteq> Some NaN"
  shows "cash (portfolio (snd (buy gp now smb qty e))) =
           js_sub (cash (portfolio e)) (js_mul (gp (priceReads e) smb) qty) \<and>
         map_of (positions (portfolio (snd (buy gp now smb qty e)))) smb =
           Some (js_add (case map_of (positions (portfolio e)) smb of
                           None \<Rightarrow> Fin 0 | Some q \<Rightarrow> q) qty) \<and>
         (\<exists>m. fst (buy gp now smb qty e) = Bought (gp (priceReads e) smb) qty m)"
proof -
  have "\<exists>m. fst (buy gp now smb qty e) = Bought (gp (priceReads e) smb) qty m"
    using assms(1) unfolding buy_fst by (simp add: Let_def split: if_splits)
  then show ?thesis
    using buy_bought_portfolio [OF assms(1)] js_or0_stored [OF assms(2)]
    by (simp add: map_of_assign_same)
qed

text \<open>A share bought at 150 by an engine that holds six and a cash of 99100.\<close>

theorem buy_conservation_witness:
  "success (fst (buy (getPrice (\<lambda>n. 0)) 0 ''AAPL'' (Fin 1)
                  (engineWith (Fin 99100) [(''AAPL'', Fin 6)] (Fin 100000)))) \<and>
   cash (portfolio (snd (buy (getPrice (\<lambda>n. 0)) 0 ''AAPL'' (Fin 1)
                  (engineWith (Fin 99100) [(''AAPL'', Fin 6)] (Fin 100000))))) = Fin 98950 \<and>
   map_of (positions (portfolio (snd (buy (getPrice (\<lambda>n. 0)) 0 ''AAPL'' (Fin 1)
                  (engineWith (Fin 99100) [(''AAPL'', Fin 6)] (Fin 100000)))))) ''AAPL'' =
     Some (Fin 7)"
proof -
  let ?e = "engineWith (Fin 99100) [(''AAPL'', Fin 6)] (Fin 100000)"
  have h1: "success (fst (buy (getPrice (\<lambda>n. 0)) 0 ''AAPL'' (Fin 1) ?e))"
    by (simp add: engine_defs)
  have h2: "map_of (positions (portfolio ?e)) ''AAPL'' \<noteq> Some NaN"
    by (simp add: engineWith_def)
  have v: "map_of (positions (portfolio ?e)) ''AAPL'' = Some (Fin 6)"
          "cash (portfolio ?e) = Fin 99100"
          "getPrice (\<lambda>n. 0) (priceReads ?e) ''AAPL'' = Fin 150"
    by (simp_all add: engineWith_def getPrice_def)
  from buy_conservation [OF h1 h2] h1 show ?thesis
    by (simp add: v js_sub_def)
qed

text \<open>
  C3. A buy that is refused, by the risk check or for insufficient funds, returns
  \<open>{success: false, reason}\<close> and leaves the ledger as it was: the cash, every position
  and the history are unchanged.
\<close>

theorem buy_refused_ledger_unchanged:
  assumes "\<not> success (fst (buy gp now smb qty e))"
  shows "cash (portfolio (snd (buy gp now smb qty e))) = cash (portfolio e) \<and>
         positions (portfolio (snd (buy gp now smb qty e))) = positions (portfolio e) \<and>
         history (portfolio (snd (buy gp now smb qty e))) = history (portfolio e) \<and>
         (\<exists>why. fst (buy gp now smb qty e) = Refused why)"
proof -
  have "portfolio (snd (buy gp now smb qty e)) = portfolio e"
    using assms by (rule buy_refused_frame)
  moreover have "\<exists>why. fst (buy gp now smb qty e) = Refused why"
    using assms by (cases "fst (buy gp now smb qty e)") simp_all
  ultimately show ?thesis by simp
qed

theorem buy_refused_ledger_unchanged_witness:
  "\<not> success (fst (buy (getPrice (\<lambda>n. 0)) 0 ''AAPL'' (Fin 1000) newTradingEngine)) \<and>
   cash (portfolio (snd (buy (getPrice (\<lambda>n. 0)) 0 ''AAPL'' (Fin 1000) newTradingEngine))) =
     Fin 100000 \<and>
   positions (portfolio (snd (buy (getPrice (\<lambda>n. 0)) 0 ''AAPL'' (Fin 1000) newTradingEngine))) = [] \<and>
   history (portfolio (snd (buy (getPrice (\<lambda>n. 0)) 0 ''AAPL'' (Fin 1000) newTradingEngine))) = []"
proof -
  have h: "\<not> success (fst (buy (getPrice (\<lambda>n. 0)) 0 ''AAPL'' (Fin 1000) newTradingEngine))"
    by (simp add: engine_defs)
  have "portfolio newTradingEngine = \<lparr>cash = Fin 100000, positions = [], history = []\<rparr>"
    by (simp add: newTradingEngine_def Let_def)
  with buy_refused_ledger_unchanged [OF h] h show ?thesis by simp
qed

text \<open>
  C4. \<open>peakPortfolioValue\<close> never decreases: a call of \<open>getPortfolioValue\<close> replaces it by
  the value it has just computed exactly when that value is greater, and after any
  sequence of calls of the methods, whatever prices the oracle returns, the peak is the
  earlier one or greater.
\<close>

theorem peak_nondecreasing:
  "peakPortfolioValue (riskManager (snd (getPortfolioValue gp e))) =
     (if js_gt (fst (getPortfolioValue gp e)) (peakPortfolioValue (riskManager e))
      then fst (getPortfolioValue gp e) else peakPortfolioValue (riskManager e)) \<and>
   nondecreasing (peakPortfolioValue (riskManager e))
     (peakPortfolioValue (riskManager (performAll gp xs e))) \<and>
   \<not> js_lt (peakPortfolioValue (riskManager (performAll gp xs e)))
     (peakPortfolioValue (riskManager e))"
  using getPortfolioValue_peak [of gp e] performAll_nondecreasing [of e gp xs]
    nondecreasing_not_lt by blast

text \<open>The price of a held symbol goes up to 200 and then falls to 100; the peak stays.\<close>

theorem peak_nondecreasing_witness:
  "peakPortfolioValue (riskManager
      (performAll (\<lambda>n s. if n = 0 then Fin 200 else Fin 100)
         [GetPortfolioValue, GetPortfolioValue]
         (engineWith (Fin 100000) [(''AAPL'', Fin 200)] (Fin 100000)))) = Fin 140000 \<and>
   nondecreasing (Fin 100000) (Fin 140000)"
proof -
  let ?e = "engineWith (Fin 100000) [(''AAPL'', Fin 200)] (Fin 100000)"
  let ?gp = "\<lambda>(n::nat) (s::string). if n = 0 then Fin 200 else Fin 100"
  have v: "peakPortfolioValue (riskManager
      (performAll ?gp [GetPortfolioValue, GetPortfolioValue] ?e)) = Fin 140000"
    by (simp add: engine_defs)
  have p: "peakPortfolioValue (riskManager ?e) = Fin 100000"
    by (simp add: engineWith_def)
  from peak_nondecreasing [of ?gp ?e "[GetPortfolioValue, GetPortfolioValue]"] v p
  show ?thesis by simp
qed

text \<open>
  C5. The drawdown and the position-size thresholds are inclusive. \<open>checkDrawdown\<close>
  allows exactly when \<open>currentDrawdown <= maxPortfolioDrawdown\<close>, the drawdown being
  \<open>(peak - value) / peak\<close> with the peak already updated: a drawdown equal to the limit
  is allowed and a greater one is denied. \<open>checkPositionSize\<close> allows exactly when
  \<open>currentSize <= maxPositionSize\<close>, the size being that of the prospective position,
  \<open>(existing + additional) * price / value\<close>.
\<close>

theorem thresholds_inclusive:
  "allowed (fst (checkDrawdown gp e)) =
     js_le (currentDrawdown (fst (checkDrawdown gp e)))
           (maxPortfolioDrawdown (limits (riskManager e))) \<and>
   currentDrawdown (fst (checkDrawdown gp e)) =
     js_div (js_sub (peakPortfolioValue (riskManager (snd (getPortfolioValue gp e))))
                    (fst (getPortfolioValue gp e)))
            (peakPortfolioValue (riskManager (snd (getPortfolioValue gp e)))) \<and>
   (currentDrawdown (fst (checkDrawdown gp e)) = maxPortfolioDrawdown (limits (riskManager e))
      \<and> maxPortfolioDrawdown (limits (riskManager e)) \<noteq> NaN
      \<longrightarrow> allowed (fst (checkDrawdown gp e))) \<and>
   (js_gt (currentDrawdown (fst (checkDrawdown gp e)))
          (maxPortfolioDrawdown (limits (riskManager e)))
      \<longrightarrow> \<not> allowed (fst (checkDrawdown gp e))) \<and>
   allowed (fst (checkPositionSize gp smb qty p e)) =
     js_le (currentSize (fst (checkPositionSize gp smb qty p e)))
           (maxPositionSize (limits (riskManager e))) \<and>
   currentSize (fst (checkPositionSize gp smb qty p e)) =
     js_div (js_mul (js_add (js_or0 (map_of (positions (portfolio e)) smb)) qty) p)
            (fst (getPortfolioValue gp e)) \<and>
   (currentSize (fst (checkPositionSize gp smb qty p e)) = maxPositionSize (limits (riskManager e))
      \<and> maxPositionSize (limits (riskManager e)) \<noteq> NaN
      \<longrightarrow> allowed (fst (checkPositionSize gp smb qty p e))) \<and>
   (js_gt (currentSize (fst (checkPositionSize gp smb qty p e)))
          (maxPositionSize (limits (riskManager e)))
      \<longrightarrow> \<not> allowed (fst (checkPositionSize gp smb qty p e)))"
proof -
  have d: "allowed (fst (checkDrawdown gp e)) =
     js_le (currentDrawdown (fst (checkDrawdown gp e)))
           (maxPortfolioDrawdown (limits (riskManager e)))"
    by (simp add: checkDrawdown_fst Let_def)
  have dv: "currentDrawdown (fst (checkDrawdown gp e)) =
     js_div (js_sub (peakPortfolioValue (riskManager (snd (getPortfolioValue gp e))))
                    (fst (getPortfolioValue gp e)))
            (peakPortfolioValue (riskManager (snd (getPortfolioValue gp e))))"
    by (simp add: checkDrawdown_fst Let_def)
  have c: "allowed (fst (checkPositionSize gp smb qty p e)) =
     js_le (currentSize (fst (checkPositionSize gp smb qty p e)))
           (maxPositionSize (limits (riskManager e)))"
    by (simp add: checkPositionSize_fst Let_def)
  have cv: "currentSize (fst (checkPositionSize gp smb qty p e)) =
     js_div (js_mul (js_add (js_or0 (map_of (positions (portfolio e)) smb)) qty) p)
            (fst (getPortfolioValue gp e))"
    by (simp add: checkPositionSize_fst Let_def)
  show ?thesis
    using d dv c cv js_le_refl js_lt_not_le unfolding js_gt_def by presburger
qed

theorem thresholds_inclusive_witness:
  "currentDrawdown (fst (checkDrawdown (\<lambda>n s. Fin 150) (engineWith (Fin 90000) [] (Fin 100000)))) =
     Fin (10 / 100) \<and>
   allowed (fst (checkDrawdown (\<lambda>n s. Fin 150) (engineWith (Fin 90000) [] (Fin 100000)))) \<and>
   currentSize (fst (checkPositionSize (\<lambda>n s. Fin 150) ''GOOGL'' (Fin 10) (Fin 2000)
                  newTradingEngine)) = Fin (20 / 100) \<and>
   allowed (fst (checkPositionSize (\<lambda>n s. Fin 150) ''GOOGL'' (Fin 10) (Fin 2000)
                  newTradingEngine)) \<and>
   js_gt (currentDrawdown (fst (checkDrawdown (\<lambda>n s. Fin 150)
            (engineWith (Fin 85000) [] (Fin 100000))))) (Fin (10 / 100)) \<and>
   \<not> allowed (fst (checkDrawdown (\<lambda>n s. Fin 150) (engineWith (Fin 85000) [] (Fin 100000))))"
proof -
  let ?gp = "\<lambda>(n::nat) (s::string). Fin 150"
  let ?a = "engineWith (Fin 90000) [] (Fin 100000)"
  let ?b = "engineWith (Fin 85000) [] (Fin 100000)"
  have la: "maxPortfolioDrawdown (limits (riskManager ?a)) = Fin (10 / 100)"
    and lb: "maxPortfolioDrawdown (limits (riskManager ?b)) = Fin (10 / 100)"
    and ln: "maxPositionSize (limits (riskManager newTradingEngine)) = Fin (20 / 100)"
    by (simp_all add: engineWith_def newTradingEngine_def newRiskManager_def newLimits_def Let_def)
  have a: "currentDrawdown (fst (checkDrawdown ?gp ?a)) = Fin (10 / 100)"
    by (simp add: engine_defs)
  have n: "currentSize (fst (checkPositionSize ?gp ''GOOGL'' (Fin 10) (Fin 2000) newTradingEngine))
             = Fin (20 / 100)"
    by (simp add: engine_defs)
  have b: "js_gt (currentDrawdown (fst (checkDrawdown ?gp ?b))) (Fin (10 / 100))"
    by (simp add: engine_defs)
  have ra: "allowed (fst (checkDrawdown ?gp ?a))"
    using thresholds_inclusive [of ?gp ?a] a la by simp
  have rn: "allowed (fst (checkPositionSize ?gp ''GOOGL'' (Fin 10) (Fin 2000) newTradingEngine))"
    using thresholds_inclusive [of ?gp newTradingEngine "''GOOGL''" "Fin 10" "Fin 2000"] n ln
    by simp
  have "js_gt (currentDrawdown (fst (checkDrawdown ?gp ?b)))
               (maxPortfolioDrawdown (limits (riskManager ?b)))
          \<longrightarrow> \<not> allowed (fst (checkDrawdown ?gp ?b))"
    using thresholds_inclusive [of ?gp ?b "''GOOGL''" "Fin 10" "Fin 2000"] by blast
  then have rb: "\<not> allowed (fst (checkDrawdown ?gp ?b))"
    using b unfolding lb by blast
  from a ra n rn b rb show ?thesis by simp
qed

text \<open>
  C6. For a buy, \<open>checkTrade\<close> evaluates the drawdown, then the position size, then the
  risk per trade, and stops at the first limit that fails: when the drawdown check
  fails the result is its denial and the state is the one it left, whatever the two
  other checks would say; when it passes and the position-size check fails the result
  is that denial; when all three pass the result is \<open>allowed = true\<close> with the metrics.
\<close>

theorem checkTrade_order:
  assumes "checkDrawdown gp e = (dc, e1)"
      and "checkPositionSize gp smb qty p e1 = (pc, e2)"
      and "getPortfolioValue gp e2 = (pv, e3)"
  shows
   "(\<not> allowed dc \<longrightarrow>
       checkTrade gp ''buy'' smb qty p e =
         (\<lparr>allowed = False,
           reason = DrawdownExceeds (js_mul (currentDrawdown dc) (Fin 100))
                      (js_mul (maxPortfolioDrawdown (limits (riskManager e))) (Fin 100)),
           metrics = None\<rparr>, e1)) \<and>
    (allowed dc \<and> \<not> allowed pc \<longrightarrow>
       checkTrade gp ''buy'' smb qty p e =
         (\<lparr>allowed = False,
           reason = PositionSizeExceeds (js_mul (currentSize pc) (Fin 100))
                      (js_mul (maxPositionSize (limits (riskManager e))) (Fin 100)),
           metrics = None\<rparr>, e2)) \<and>
    (allowed dc \<and> allowed pc \<and>
     js_gt (js_div (js_mul p qty) pv) (maxRiskPerTrade (limits (riskManager e))) \<longrightarrow>
       checkTrade gp ''buy'' smb qty p e =
         (\<lparr>allowed = False,
           reason = RiskPerTradeExceeds (js_mul (js_div (js_mul p qty) pv) (Fin 100))
                      (js_mul (maxRiskPerTrade (limits (riskManager e))) (Fin 100)),
           metrics = None\<rparr>, e3)) \<and>
    (allowed dc \<and> allowed pc \<and>
     \<not> js_gt (js_div (js_mul p qty) pv) (maxRiskPerTrade (limits (riskManager e))) \<longrightarrow>
       checkTrade gp ''buy'' smb qty p e =
         (\<lparr>allowed = True, reason = PassesAllRiskChecks,
           metrics = Some \<lparr>riskPerTrade = js_mul (js_div (js_mul p qty) pv) (Fin 100),
                           positionSize = js_mul (currentSize pc) (Fin 100),
                           drawdown = js_mul (currentDrawdown dc) (Fin 100)\<rparr>\<rparr>, e3))"
  unfolding checkTrade_buy [OF assms] by simp

text \<open>
  With a cash of 80000 under a peak of 100000, a buy of 300 at 100 violates the three
  limits at once, and the reason is the drawdown; on a new engine the same buy violates
  the last two, and the reason is the position size; a buy of 5 at 150 passes.
\<close>

theorem checkTrade_order_witness:
  "\<not> allowed (fst (checkDrawdown (\<lambda>n s. Fin 150) (engineWith (Fin 80000) [] (Fin 100000)))) \<and>
   \<not> allowed (fst (checkPositionSize (\<lambda>n s. Fin 150) ''AAPL'' (Fin 300) (Fin 100)
                 (snd (checkDrawdown (\<lambda>n s. Fin 150) (engineWith (Fin 80000) [] (Fin 100000)))))) \<and>
   fst (checkTrade (\<lambda>n s. Fin 150) ''buy'' ''AAPL'' (Fin 300) (Fin 100)
          (engineWith (Fin 80000) [] (Fin 100000))) =
     \<lparr>allowed = False, reason = DrawdownExceeds (Fin 20) (Fin 10), metrics = None\<rparr> \<and>
   fst (checkTrade (\<lambda>n s. Fin 150) ''buy'' ''AAPL'' (Fin 300) (Fin 100) newTradingEngine) =
     \<lparr>allowed = False, reason = PositionSizeExceeds (Fin 30) (Fin 20), metrics = None\<rparr> \<and>
   fst (checkTrade (\<lambda>n s. Fin 150) ''buy'' ''AAPL'' (Fin 5) (Fin 150) newTradingEngine) =
     \<lparr>allowed = True, reason = PassesAllRiskChecks,
      metrics = Some \<lparr>riskPerTrade = Fin (3 / 4), positionSize = Fin (3 / 4),
                      drawdown = Fin 0\<rparr>\<rparr>"
proof -
  let ?gp = "\<lambda>(n::nat) (s::string). Fin 150"
  let ?a = "engineWith (Fin 80000) [] (Fin 100000)"
  let ?n = "newTradingEngine"
  let ?a1 = "snd (checkDrawdown ?gp ?a)"
  let ?a2 = "snd (checkPositionSize ?gp ''AAPL'' (Fin 300) (Fin 100) ?a1)"
  let ?n1 = "snd (checkDrawdown ?gp ?n)"
  let ?n2 = "snd (checkPositionSize ?gp ''AAPL'' (Fin 300) (Fin 100) ?n1)"
  let ?m2 = "snd (checkPositionSize ?gp ''AAPL'' (Fin 5) (Fin 150) ?n1)"
  have a1: "\<not> allowed (fst (checkDrawdown ?gp ?a))"
    and a2: "\<not> allowed (fst (checkPositionSize ?gp ''AAPL'' (Fin 300) (Fin 100) ?a1))"
    by (simp_all add: engine_defs)
  have ra: "fst (checkTrade ?gp ''buy'' ''AAPL'' (Fin 300) (Fin 100) ?a) =
     \<lparr>allowed = False,
      reason = DrawdownExceeds (js_mul (currentDrawdown (fst (checkDrawdown ?gp ?a))) (Fin 100))
                 (js_mul (maxPortfolioDrawdown (limits (riskManager ?a))) (Fin 100)),
      metrics = None\<rparr>"
    using checkTrade_order [of ?gp ?a "fst (checkDrawdown ?gp ?a)" ?a1
        "''AAPL''" "Fin 300" "Fin 100"
        "fst (checkPositionSize ?gp ''AAPL'' (Fin 300) (Fin 100) ?a1)" ?a2
        "fst (getPortfolioValue ?gp ?a2)" "snd (getPortfolioValue ?gp ?a2)"] a1
    by simp
  have n1: "allowed (fst (checkDrawdown ?gp ?n))"
    and n2: "\<not> allowed (fst (checkPositionSize ?gp ''AAPL'' (Fin 300) (Fin 100) ?n1))"
    by (simp_all add: engine_defs)
  have rn: "fst (checkTrade ?gp ''buy'' ''AAPL'' (Fin 300) (Fin 100) ?n) =
     \<lparr>allowed = False,
      reason = PositionSizeExceeds
                 (js_mul (currentSize (fst (checkPositionSize ?gp ''AAPL'' (Fin 300) (Fin 100) ?n1)))
                    (Fin 100))
                 (js_mul (maxPositionSize (limits (riskManager ?n))) (Fin 100)),
      metrics = None\<rparr>"
    using checkTrade_order [of ?gp ?n "fst (checkDrawdown ?gp ?n)" ?n1
        "''AAPL''" "Fin 300" "Fin 100"
        "fst (checkPositionSize ?gp ''AAPL'' (Fin 300) (Fin 100) ?n1)" ?n2
        "fst (getPortfolioValue ?gp ?n2)" "snd (getPortfolioValue ?gp ?n2)"] n1 n2
    by simp
  have m2: "allowed (fst (checkPositionSize ?gp ''AAPL'' (Fin 5) (Fin 150) ?n1))"
    and m3: "\<not> js_gt (js_div (js_mul (Fin 150) (Fin 5)) (fst (getPortfolioValue ?gp ?m2)))
                 (maxRiskPerTrade (limits (riskManager ?n)))"
    by (simp_all add: engine_defs)
  have rm: "fst (checkTrade ?gp ''buy'' ''AAPL'' (Fin 5) (Fin 150) ?n) =
     \<lparr>allowed = True, reason = PassesAllRiskChecks,
      metrics = Some
        \<lparr>riskPerTrade = js_mul (js_div (js_mul (Fin 150) (Fin 5))
                           (fst (getPortfolioValue ?gp ?m2))) (Fin 100),
         positionSize = js_mul (currentSize (fst (checkPositionSize ?gp ''AAPL'' (Fin 5)
                           (Fin 150) ?n1))) (Fin 100),
         drawdown = js_mul (currentDrawdown (fst (checkDrawdown ?gp ?n))) (Fin 100)\<rparr>\<rparr>"
    using checkTrade_order [of ?gp ?n "fst (checkDrawdown ?gp ?n)" ?n1
        "''AAPL''" "Fin 5" "Fin 150"
        "fst (checkPositionSize ?gp ''AAPL'' (Fin 5) (Fin 150) ?n1)" ?m2
        "fst (getPortfolioValue ?gp ?m2)" "snd (getPortfolioValue ?gp ?m2)"] n1 m2 m3
    by simp
  have va: "js_mul (currentDrawdown (fst (checkDrawdown ?gp ?a))) (Fin 100) = Fin 20"
           "js_mul (maxPortfolioDrawdown (limits (riskManager ?a))) (Fin 100) = Fin 10"
    by (simp_all add: engine_defs)
  have vn: "js_mul (currentSize (fst (checkPositionSize ?gp ''AAPL'' (Fin 300) (Fin 100) ?n1)))
              (Fin 100) = Fin 30"
           "js_mul (maxPositionSize (limits (riskManager ?n))) (Fin 100) = Fin 20"
    by (simp_all add: engine_defs)
  have vm: "js_mul (js_div (js_mul (Fin 150) (Fin 5)) (fst (getPortfolioValue ?gp ?m2)))
              (Fin 100) = Fin (3 / 4)"
           "js_mul (currentSize (fst (checkPositionSize ?gp ''AAPL'' (Fin 5) (Fin 150) ?n1)))
              (Fin 100) = Fin (3 / 4)"
           "js_mul (currentDrawdown (fst (checkDrawdown ?gp ?n))) (Fin 100) = Fin 0"
    by (simp_all add: engine_defs)
  show ?thesis
    using a1 a2 ra rn rm unfolding va vn vm by simp
qed

text \<open>
  C7. The funds check comes after the risk check. When the risk check denies, the
  result carries its reason, whatever the cash, and that reason is never the one of the
  funds check; \<open>Insufficient funds\<close> is returned exactly when the risk check has passed
  and \<open>cash >= cost\<close> is false, which for a cash and a cost that are numbers means
  \<open>cash < cost\<close>. In both cases the ledger is unchanged.
\<close>

theorem funds_check_after_risk_check:
  "(\<not> allowed (fst (checkTrade gp ''buy'' smb qty (gp (priceReads e) smb)
                      (e\<lparr>priceReads := Suc (priceReads e)\<rparr>))) \<longrightarrow>
      fst (buy gp now smb qty e) =
        Refused (reason (fst (checkTrade gp ''buy'' smb qty (gp (priceReads e) smb)
                               (e\<lparr>priceReads := Suc (priceReads e)\<rparr>))))
      \<and> fst (buy gp now smb qty e) \<noteq> Refused InsufficientFunds) \<and>
   (fst (buy gp now smb qty e) = Refused InsufficientFunds \<longleftrightarrow>
      allowed (fst (checkTrade gp ''buy'' smb qty (gp (priceReads e) smb)
                      (e\<lparr>priceReads := Suc (priceReads e)\<rparr>)))
      \<and> \<not> js_ge (cash (portfolio e)) (js_mul (gp (priceReads e) smb) qty)) \<and>
   (cash (portfolio e) \<noteq> NaN \<and> js_mul (gp (priceReads e) smb) qty \<noteq> NaN \<longrightarrow>
      (fst (buy gp now smb qty e) = Refused InsufficientFunds \<longleftrightarrow>
         allowed (fst (checkTrade gp ''buy'' smb qty (gp (priceReads e) smb)
                         (e\<lparr>priceReads := Suc (priceReads e)\<rparr>)))
         \<and> js_lt (cash (portfolio e)) (js_mul (gp (priceReads e) smb) qty))) \<and>
   (\<not> success (fst (buy gp now smb qty e)) \<longrightarrow>
      portfolio (snd (buy gp now smb qty e)) = portfolio e)"
proof -
  let ?p = "gp (priceReads e) smb"
  let ?rc = "fst (checkTrade gp ''buy'' smb qty ?p (e\<lparr>priceReads := Suc (priceReads e)\<rparr>))"
  have r: "reason ?rc \<noteq> InsufficientFunds"
    by (rule checkTrade_buy_reason)
  have b: "fst (buy gp now smb qty e) =
     (if \<not> allowed ?rc then Refused (reason ?rc)
      else if js_ge (cash (portfolio e)) (js_mul ?p qty) then Bought ?p qty (metrics ?rc)
      else Refused InsufficientFunds)"
    unfolding buy_fst by (simp add: Let_def)
  have 1: "\<not> allowed ?rc \<longrightarrow>
      fst (buy gp now smb qty e) = Refused (reason ?rc)
      \<and> fst (buy gp now smb qty e) \<noteq> Refused InsufficientFunds"
    using b r by simp
  have 2: "fst (buy gp now smb qty e) = Refused InsufficientFunds \<longleftrightarrow>
      allowed ?rc \<and> \<not> js_ge (cash (portfolio e)) (js_mul ?p qty)"
    using b r by simp
  have 3: "cash (portfolio e) \<noteq> NaN \<and> js_mul ?p qty \<noteq> NaN \<longrightarrow>
      (fst (buy gp now smb qty e) = Refused InsufficientFunds \<longleftrightarrow>
         allowed ?rc \<and> js_lt (cash (portfolio e)) (js_mul ?p qty))"
    using 2 js_not_le_iff [of "cash (portfolio e)" "js_mul ?p qty"] by (simp add: js_ge_def)
  have 4: "\<not> success (fst (buy gp now smb qty e)) \<longrightarrow>
      portfolio (snd (buy gp now smb qty e)) = portfolio e"
    using buy_refused_frame(1) by blast
  from 1 2 3 4 show ?thesis by blast
qed

theorem funds_check_after_risk_check_witness:
  "fst (buy (getPrice (\<lambda>n. 0)) 0 ''AAPL'' (Fin 100) (engineWith (Fin 100) [] (Fin 100))) =
     Refused (PositionSizeExceeds (Fin 15000) (Fin 20)) \<and>
   js_lt (cash (portfolio (engineWith (Fin 100) [] (Fin 100)))) (js_mul (Fin 150) (Fin 100)) \<and>
   fst (buy (getPrice (\<lambda>n. 0)) 0 ''AAPL'' (Fin 1)
          (engineWith (Fin 100) [(''MSFT'', Fin 1000)] (Fin 100000))) =
     Refused InsufficientFunds \<and>
   portfolio (snd (buy (getPrice (\<lambda>n. 0)) 0 ''AAPL'' (Fin 1)
          (engineWith (Fin 100) [(''MSFT'', Fin 1000)] (Fin 100000)))) =
     \<lparr>cash = Fin 100, positions = [(''MSFT'', Fin 1000)], history = []\<rparr>"
proof -
  let ?gp = "getPrice (\<lambda>n. 0)"
  let ?a = "engineWith (Fin 100) [] (Fin 100)"
  let ?b = "engineWith (Fin 100) [(''MSFT'', Fin 1000)] (Fin 100000)"
  have a1: "\<not> allowed (fst (checkTrade ?gp ''buy'' ''AAPL'' (Fin 100) (?gp (priceReads ?a) ''AAPL'')
                            (?a\<lparr>priceReads := Suc (priceReads ?a)\<rparr>)))"
    by (simp add: engine_defs)
  have a2: "reason (fst (checkTrade ?gp ''buy'' ''AAPL'' (Fin 100) (?gp (priceReads ?a) ''AAPL'')
                            (?a\<lparr>priceReads := Suc (priceReads ?a)\<rparr>))) =
            PositionSizeExceeds (Fin 15000) (Fin 20)"
    by (simp add: engine_defs)
  have a3: "js_lt (cash (portfolio ?a)) (js_mul (Fin 150) (Fin 100))"
    by (simp add: engineWith_def)
  have b1: "allowed (fst (checkTrade ?gp ''buy'' ''AAPL'' (Fin 1) (?gp (priceReads ?b) ''AAPL'')
                            (?b\<lparr>priceReads := Suc (priceReads ?b)\<rparr>)))"
    by (simp add: engine_defs)
  have b2: "\<not> js_ge (cash (portfolio ?b)) (js_mul (?gp (priceReads ?b) ''AAPL'') (Fin 1))"
    by (simp add: engine_defs)
  have b3: "portfolio ?b = \<lparr>cash = Fin 100, positions = [(''MSFT'', Fin 1000)], history = []\<rparr>"
    by (simp add: engineWith_def)
  have ra: "fst (buy ?gp 0 ''AAPL'' (Fin 100) ?a) = Refused (PositionSizeExceeds (Fin 15000) (Fin 20))"
    using funds_check_after_risk_check [of ?gp "''AAPL''" "Fin 100" ?a 0] a1 a2 by simp
  have rb: "fst (buy ?gp 0 ''AAPL'' (Fin 1) ?b) = Refused InsufficientFunds"
    using funds_check_after_risk_check [of ?gp "''AAPL''" "Fin 1" ?b 0] b1 b2 by blast
  have pb: "portfolio (snd (buy ?gp 0 ''AAPL'' (Fin 1) ?b)) = portfolio ?b"
    using funds_check_after_risk_check [of ?gp "''AAPL''" "Fin 1" ?b 0] rb by simp
  from ra a3 rb pb b3 show ?thesis by simp
qed

text \<open>
  C8. The claim is that a buy of a positive quantity at a positive price is denied
  whenever the portfolio value computed is zero. \<open>checkTrade\<close> has no test of the value:
  a zero seen by the drawdown check is denied (\<open>checkDrawdown_zero_value_denied\<close>), but
  a zero seen by the position-size check alone divides a negative prospective position
  into \<open>-Infinity\<close>, which is \<open><= maxPositionSize\<close>. A new engine reaches it with two
  calls of \<open>buy\<close>: \<open>buy('X', -20000)\<close> at 150 leaves a cash of 3100000 and a position of
  -20000; in \<open>buy('X', 1)\<close> at 150 the prices read by the three valuations are 150, 155
  and 150, so the values are 100000, 0 and 100000, and the buy is allowed and executed.
\<close>

theorem zero_portfolio_value_admitted:
  "js_gt (Fin 1) (Fin 0) \<and> js_gt (Fin 150) (Fin 0) \<and>
   portfolio (snd (buy (getPrice (\<lambda>n. if n = 3 then 1 / 2 else 0)) 0 ''X'' (Fin (- 20000))
                newTradingEngine)) =
     \<lparr>cash = Fin 3100000, positions = [(''X'', Fin (- 20000))],
      history = [\<lparr>action = ''buy'', symbol = ''X'', quantity = Fin (- 20000),
                  price = Fin 150, timestamp = 0\<rparr>]\<rparr> \<and>
   getPrice (\<lambda>n. if n = 3 then 1 / 2 else 0) 1 ''X'' = Fin 150 \<and>
   fst (checkPositionSize (getPrice (\<lambda>n. if n = 3 then 1 / 2 else 0)) ''X'' (Fin 1) (Fin 150)
     (snd (checkDrawdown (getPrice (\<lambda>n. if n = 3 then 1 / 2 else 0))
        ((snd (buy (getPrice (\<lambda>n. if n = 3 then 1 / 2 else 0)) 0 ''X'' (Fin (- 20000))
                 newTradingEngine))\<lparr>priceReads := 2\<rparr>)))) =
     \<lparr>allowed = True, currentSize = NInf, positionValue = Fin (- 2999850),
      portfolioValue = Fin 0\<rparr> \<and>
   fst (checkTrade (getPrice (\<lambda>n. if n = 3 then 1 / 2 else 0)) ''buy'' ''X'' (Fin 1) (Fin 150)
     ((snd (buy (getPrice (\<lambda>n. if n = 3 then 1 / 2 else 0)) 0 ''X'' (Fin (- 20000))
              newTradingEngine))\<lparr>priceReads := 2\<rparr>)) =
     \<lparr>allowed = True, reason = PassesAllRiskChecks,
      metrics = Some \<lparr>riskPerTrade = Fin (15 / 100), positionSize = NInf,
                      drawdown = Fin 0\<rparr>\<rparr> \<and>
   fst (buy (getPrice (\<lambda>n. if n = 3 then 1 / 2 else 0)) 1 ''X'' (Fin 1)
     (snd (buy (getPrice (\<lambda>n. if n = 3 then 1 / 2 else 0)) 0 ''X'' (Fin (- 20000))
             newTradingEngine))) =
     Bought (Fin 150) (Fin 1)
       (Some \<lparr>riskPerTrade = Fin (15 / 100), positionSize = NInf, drawdown = Fin 0\<rparr>)"
  by (simp add: engine_defs)

text \<open>
  C9. The claim is that a buy of a non-positive quantity is rejected and changes
  nothing. \<open>buy\<close> has no check of the quantity: on a new engine, at a price of 150,
  a buy of -5 shares passes the risk check and the funds check, is reported as a
  success, credits 750 to the cash, leaves a position of -5 and appends a trade.
\<close>

theorem buy_negative_quantity_executes:
  "fst (buy (getPrice (\<lambda>n. 0)) 0 ''TEST'' (Fin (- 5)) newTradingEngine) =
     Bought (Fin 150) (Fin (- 5))
       (Some \<lparr>riskPerTrade = Fin (- (3 / 4)), positionSize = Fin (- (3 / 4)),
              drawdown = Fin 0\<rparr>) \<and>
   portfolio (snd (buy (getPrice (\<lambda>n. 0)) 0 ''TEST'' (Fin (- 5)) newTradingEngine)) =
     \<lparr>cash = Fin 100750, positions = [(''TEST'', Fin (- 5))],
      history = [\<lparr>action = ''buy'', symbol = ''TEST'', quantity = Fin (- 5),
                  price = Fin 150, timestamp = 0\<rparr>]\<rparr>"
  by (simp add: engine_defs)

text \<open>
  C10. For every action other than \<open>buy\<close> (a sell in particular), whatever the symbol,
  the quantity, the price and the state, \<open>checkTrade\<close> returns \<open>allowed = true\<close>, and it
  evaluates none of the three limits: the state it returns is the one it was given, so
  no price was read and the peak was not touched.
\<close>

theorem checkTrade_non_buy_allowed:
  assumes "act \<noteq> ''buy''"
  shows "checkTrade gp act smb qty p e =
           (\<lparr>allowed = True, reason = SellOrdersAllowed, metrics = None\<rparr>, e)"
  using assms by (simp add: checkTrade_def)

theorem checkTrade_non_buy_allowed_witness:
  "''sell'' \<noteq> ''buy'' \<and>
   checkTrade (\<lambda>n s. Fin 150) ''sell'' ''AAPL'' (Fin 1000) (Fin 150)
       (engineWith (Fin 100000) [(''AAPL'', Fin 1000)] (Fin 100000)) =
     (\<lparr>allowed = True, reason = SellOrdersAllowed, metrics = None\<rparr>,
      engineWith (Fin 100000) [(''AAPL'', Fin 1000)] (Fin 100000))"
proof -
  have h: "''sell'' \<noteq> ''buy''" by simp
  from checkTrade_non_buy_allowed [OF h] show ?thesis using h by blast
qed

end
